theory Spec2Isabelle
  imports Complex_Main
begin

unbundle bit_operations_syntax

section \<open>The pybind11 binding of \<open>convolveAndSubtract\<close> (imageSubtract.cc)\<close>

text \<open>
  The file \<^verbatim>\<open>python/lsst/legacy-diffim/imageSubtract.cc\<close> registers overloads of the
  native function \<open>convolveAndSubtract\<close> with a Python module. Registering an overload is
  the only thing the file does, so the model is the list of registered overloads: what
  \<open>mod.def\<close> receives (the Python name, the C++ function-pointer type selected by the
  cast, and the keyword arguments with their defaults), appended to the module in call
  order.
\<close>

subsection \<open>C++ types that occur in the signatures\<close>

text \<open>The arithmetic element types named in the file: \<open>float\<close> and \<open>double\<close>.\<close>

datatype cppScalar = CFloat | CDouble

text \<open>
  The parameter and return types of the cast: \<open>bool\<close>, a bare arithmetic type,
  \<open>afw::image::Image<T>\<close>, \<open>afw::image::MaskedImage<T>\<close>, \<open>afw::math::Kernel\<close> and
  \<open>afw::math::Function2<T>\<close>.
\<close>

datatype cppType =
    BoolT
  | ScalarT cppScalar
  | ImageT cppScalar
  | MaskedImageT cppScalar
  | KernelT
  | Function2T cppScalar

text \<open>How a parameter is passed: by value (\<open>T\<close>) or by reference to const (\<open>T const &\<close>).\<close>

datatype passing = ByValue | ByConstRef

type_synonym paramType = "cppType \<times> passing"

text \<open>A keyword argument \<open>"name"_a\<close>, with its default when written \<open>"name"_a = v\<close>.\<close>

record pyArg =
  argName :: string
  argDefault :: "bool option"

text \<open>One \<open>mod.def(name, (R (*)(P1, ..., Pn)) &f, args...)\<close>.\<close>

record overload =
  pyName :: string
  returnType :: cppType
  paramTypes :: "paramType list"
  pyArgs :: "pyArg list"

text \<open>\<open>lsst::cpputils::python::WrapperCollection\<close>: only its \<open>module\<close> is used.\<close>

record WrapperCollection =
  pyModule :: "overload list"

subsection \<open>The two functions of the file\<close>

definition arg :: "string \<Rightarrow> pyArg" where
  "arg n = \<lparr>argName = n, argDefault = None\<rparr>"

definition argWithDefault :: "string \<Rightarrow> bool \<Rightarrow> pyArg" where
  "argWithDefault n v = \<lparr>argName = n, argDefault = Some v\<rparr>"

text \<open>\<open>mod.def\<close> adds one overload to the module; earlier ones stay, in order.\<close>

definition def :: "overload \<Rightarrow> WrapperCollection \<Rightarrow> WrapperCollection" where
  "def ov wrappers = wrappers\<lparr>pyModule := pyModule wrappers @ [ov]\<rparr>"

text \<open>
  \<open>template <typename PixelT, typename BackgroundT> declareConvolveAndSubtract\<close>
  (lines 52 to 70): two \<open>mod.def\<close> calls, the first with a \<open>MaskedImage<PixelT>\<close>
  template image, the second with an \<open>Image<PixelT>\<close> template image. \<open>BackgroundT\<close>
  is used as the fourth parameter type exactly as instantiated.
\<close>

definition declareConvolveAndSubtract ::
    "cppScalar \<Rightarrow> paramType \<Rightarrow> WrapperCollection \<Rightarrow> WrapperCollection" where
  "declareConvolveAndSubtract PixelT BackgroundT wrappers =
     (let wrappers1 =
            def \<lparr>pyName = ''convolveAndSubtract'',
                 returnType = MaskedImageT PixelT,
                 paramTypes = [(MaskedImageT PixelT, ByConstRef),
                               (MaskedImageT PixelT, ByConstRef),
                               (KernelT, ByConstRef), BackgroundT, (BoolT, ByValue)],
                 pyArgs = [arg ''templateImage'', arg ''scienceMaskedImage'',
                           arg ''convolutionKernel'', arg ''background'',
                           argWithDefault ''invert'' True]\<rparr>
              wrappers;
          wrappers2 =
            def \<lparr>pyName = ''convolveAndSubtract'',
                 returnType = MaskedImageT PixelT,
                 paramTypes = [(ImageT PixelT, ByConstRef),
                               (MaskedImageT PixelT, ByConstRef),
                               (KernelT, ByConstRef), BackgroundT, (BoolT, ByValue)],
                 pyArgs = [arg ''templateImage'', arg ''scienceMaskedImage'',
                           arg ''convolutionKernel'', arg ''background'',
                           argWithDefault ''invert'' True]\<rparr>
              wrappers1
      in wrappers2)"

text \<open>
  \<open>wrapImageSubtract\<close> (lines 74 to 77): the instantiations
  \<open><float, double>\<close> and \<open><float, afw::math::Function2<double> const &>\<close>, in this order.
\<close>

definition wrapImageSubtract :: "WrapperCollection \<Rightarrow> WrapperCollection" where
  "wrapImageSubtract wrappers =
     (let wrappers1 = declareConvolveAndSubtract CFloat (ScalarT CDouble, ByValue) wrappers;
          wrappers2 = declareConvolveAndSubtract CFloat (Function2T CDouble, ByConstRef) wrappers1
      in wrappers2)"

subsection \<open>Reading a registered overload\<close>

text \<open>The C++ type of the parameter that Python passes under keyword \<open>n\<close>.\<close>

definition paramNamed :: "overload \<Rightarrow> string \<Rightarrow> paramType option" where
  "paramNamed ov n = map_of (zip (map argName (pyArgs ov)) (paramTypes ov)) n"

text \<open>
  The default of keyword \<open>n\<close>: \<open>None\<close> when the overload has no such keyword,
  \<open>Some None\<close> when the keyword is required, \<open>Some (Some v)\<close> when it defaults to \<open>v\<close>.
\<close>

definition defaultOf :: "overload \<Rightarrow> string \<Rightarrow> bool option option" where
  "defaultOf ov n = map_of (map (\<lambda>a. (argName a, argDefault a)) (pyArgs ov)) n"

text \<open>The element type a C++ type is instantiated with, when it has one.\<close>

fun elementType :: "cppType \<Rightarrow> cppScalar option" where
  "elementType BoolT = None"
| "elementType (ScalarT s) = Some s"
| "elementType (ImageT s) = Some s"
| "elementType (MaskedImageT s) = Some s"
| "elementType KernelT = None"
| "elementType (Function2T s) = Some s"

text \<open>
  The pixel types of an overload: the element types of its image-valued parameters
  (template and science image) and of the image it returns.
\<close>

definition pixelTypes :: "overload \<Rightarrow> cppScalar option list" where
  "pixelTypes ov =
     [Option.bind (paramNamed ov ''templateImage'') (elementType \<circ> fst),
      Option.bind (paramNamed ov ''scienceMaskedImage'') (elementType \<circ> fst),
      elementType (returnType ov)]"

text \<open>The element type (precision) of the background argument.\<close>

definition backgroundPrecision :: "overload \<Rightarrow> cppScalar option" where
  "backgroundPrecision ov = Option.bind (paramNamed ov ''background'') (elementType \<circ> fst)"

text \<open>What a fresh module exposes once \<open>wrapImageSubtract\<close> has run.\<close>

definition exposed :: "overload list" where
  "exposed = pyModule (wrapImageSubtract \<lparr>pyModule = []\<rparr>)"

section \<open>The convolve-and-subtract operation behind the binding\<close>

text \<open>
  The binding forwards to \<open>lsst::ip::diffim::convolveAndSubtract\<close>, declared in
  \<^verbatim>\<open>lsst/ip/diffim/ImageSubtract.h\<close>. Neither that header nor the function's body is
  among the repository's files, so nothing of this section is a translation of code: each
  definition is modelled from the specification (its sections 3, 4.1 and 7) and says so.
\<close>

subsection \<open>Data model\<close>

text \<open>
  Modelled from the spec: the bounding box of an image, "a defined pixel-coordinate
  origin offset (bounding box) used to align operands of differing extents".
\<close>

record box =
  minX :: int
  minY :: int
  boxWidth :: nat
  boxHeight :: nat

definition inside :: "box \<Rightarrow> int \<Rightarrow> int \<Rightarrow> bool" where
  "inside b x y \<longleftrightarrow>
     minX b \<le> x \<and> x < minX b + int (boxWidth b) \<and> minY b \<le> y \<and> y < minY b + int (boxHeight b)"

text \<open>Modelled from the spec: the region in which two operands overlap.\<close>

definition overlap :: "box \<Rightarrow> box \<Rightarrow> box" where
  "overlap a b =
     (let x0 = max (minX a) (minX b);
          y0 = max (minY a) (minY b);
          x1 = min (minX a + int (boxWidth a)) (minX b + int (boxWidth b));
          y1 = min (minY a + int (boxHeight a)) (minY b + int (boxHeight b))
      in \<lparr>minX = x0, minY = y0, boxWidth = nat (x1 - x0), boxHeight = nat (y1 - y0)\<rparr>)"

text \<open>
  Modelled from the spec: a mask pixel is a bitmask of pixel-quality flags. The spec names
  the flags "saturated, interpolated, edge, no-data" and fixes neither a width nor bit
  positions: the bitmask is a natural number read in binary, and the flags take the bits
  0 to 3 in the order the spec lists them.
\<close>

type_synonym maskPixel = nat

datatype flag = Saturated | Interpolated | Edge | NoData

fun flagBit :: "flag \<Rightarrow> nat" where
  "flagBit Saturated = 0"
| "flagBit Interpolated = 1"
| "flagBit Edge = 2"
| "flagBit NoData = 3"

definition flagMask :: "flag \<Rightarrow> maskPixel" where
  "flagMask f = push_bit (flagBit f) 1"

text \<open>
  Modelled from the spec: "Image: 2D grid of pixel values (floating point)" with its
  bounding box. The grid is a function of the pixel coordinate, read only inside the box;
  pixel values are real numbers (rounding is not modelled).
\<close>

record Image =
  bbox :: box
  pixelAt :: "int \<Rightarrow> int \<Rightarrow> real"

text \<open>
  Modelled from the spec: "MaskedImage: an Image paired with (a) a per-pixel bitmask plane
  ... and (b) a per-pixel variance plane".
\<close>

record MaskedImage =
  mbox :: box
  imagePlane :: "int \<Rightarrow> int \<Rightarrow> real"
  maskPlane :: "int \<Rightarrow> int \<Rightarrow> maskPixel"
  variancePlane :: "int \<Rightarrow> int \<Rightarrow> real"

text \<open>Modelled from the spec: "template: either a plain Image or a MaskedImage".\<close>

datatype Template = PlainImage Image | WithPlanes MaskedImage

text \<open>
  Modelled from the spec: "Kernel: an immutable 2D convolution stencil with odd
  width/height and a defined center pixel; may be spatially invariant or spatially
  varying", used through the capability "coefficients(x, y) -> stencil":
  \<open>coefficients k x y i j\<close> is the weight in column \<open>i\<close>, row \<open>j\<close> of the stencil for
  output pixel \<open>(x, y)\<close>. The center is column \<open>kernelWidth k div 2\<close>, row
  \<open>kernelHeight k div 2\<close>.
\<close>

record Kernel =
  kernelWidth :: nat
  kernelHeight :: nat
  coefficients :: "int \<Rightarrow> int \<Rightarrow> nat \<Rightarrow> nat \<Rightarrow> real"

text \<open>
  Modelled from the spec: "Background = Constant(f64) | SpatialFunction(fn(x,y)->f64)".
\<close>

datatype Background = Constant real | SpatialFunction "real \<Rightarrow> real \<Rightarrow> real"

text \<open>Modelled from the spec: the error taxonomy of its section 7.\<close>

datatype error = InvalidKernelError | DimensionMismatchError | TypeMismatchError

subsection \<open>Reading the template\<close>

fun templateBox :: "Template \<Rightarrow> box" where
  "templateBox (PlainImage im) = bbox im"
| "templateBox (WithPlanes mi) = mbox mi"

fun templateImageAt :: "Template \<Rightarrow> int \<Rightarrow> int \<Rightarrow> real" where
  "templateImageAt (PlainImage im) x y = pixelAt im x y"
| "templateImageAt (WithPlanes mi) x y = imagePlane mi x y"

text \<open>
  Modelled from the spec: a plain Image has no mask and no variance plane; it contributes
  no flag and no variance.
\<close>

fun templateMaskAt :: "Template \<Rightarrow> int \<Rightarrow> int \<Rightarrow> maskPixel" where
  "templateMaskAt (PlainImage im) x y = 0"
| "templateMaskAt (WithPlanes mi) x y = maskPlane mi x y"

fun templateVarianceAt :: "Template \<Rightarrow> int \<Rightarrow> int \<Rightarrow> real" where
  "templateVarianceAt (PlainImage im) x y = 0"
| "templateVarianceAt (WithPlanes mi) x y = variancePlane mi x y"

subsection \<open>The algorithm of section 4.1\<close>

text \<open>
  Modelled from the spec: "fails with InvalidKernelError when kernel has even width/height
  or zero dimensions; fails with DimensionMismatchError when template and science images
  do not overlap sufficiently", that is over "a region at least as large as the kernel's
  footprint". A pixel-type mismatch "is enforced at the type level ..., not at runtime":
  both operands have the one pixel type of the model, and \<open>TypeMismatchError\<close> is never
  returned. The checks read the geometry only and come before any pixel is computed.
\<close>

definition checkInputs :: "Template \<Rightarrow> MaskedImage \<Rightarrow> Kernel \<Rightarrow> error option" where
  "checkInputs t s k =
     (if kernelWidth k = 0 \<or> kernelHeight k = 0 \<or> even (kernelWidth k) \<or> even (kernelHeight k)
      then Some InvalidKernelError
      else if boxWidth (overlap (templateBox t) (mbox s)) < kernelWidth k
              \<or> boxHeight (overlap (templateBox t) (mbox s)) < kernelHeight k
      then Some DimensionMismatchError
      else None)"

text \<open>The stencil positions, row by row.\<close>

definition taps :: "Kernel \<Rightarrow> (nat \<times> nat) list" where
  "taps k = concat (map (\<lambda>j. map (\<lambda>i. (i, j)) [0..<kernelWidth k]) [0..<kernelHeight k])"

text \<open>
  Modelled from the spec: "standard discrete 2D convolution, kernel center aligned to
  output pixel": stencil position \<open>(i, j)\<close> of the kernel centered on \<open>(x, y)\<close> weighs
  this template pixel.
\<close>

definition footprintPixel :: "Kernel \<Rightarrow> int \<Rightarrow> int \<Rightarrow> nat \<times> nat \<Rightarrow> int \<times> int" where
  "footprintPixel k x y tap =
     (x + int (kernelWidth k div 2) - int (fst tap), y + int (kernelHeight k div 2) - int (snd tap))"

text \<open>
  The stencil positions whose template pixel exists. Near an edge part of the footprint
  lies outside the template; the spec has the values of such pixels "still produced", and
  the model produces them from the part of the footprint that has pixels.
\<close>

definition tapsOnTemplate :: "Template \<Rightarrow> Kernel \<Rightarrow> int \<Rightarrow> int \<Rightarrow> (nat \<times> nat) list" where
  "tapsOnTemplate t k x y =
     filter (\<lambda>tap. case footprintPixel k x y tap of (u, v) \<Rightarrow> inside (templateBox t) u v) (taps k)"

text \<open>Modelled from the spec, step 1: the weighted sum of template pixel values.\<close>

definition convolveImage :: "Template \<Rightarrow> Kernel \<Rightarrow> int \<Rightarrow> int \<Rightarrow> real" where
  "convolveImage t k x y =
     sum_list (map (\<lambda>tap. case footprintPixel k x y tap of
                            (u, v) \<Rightarrow> coefficients k x y (fst tap) (snd tap) * templateImageAt t u v)
                   (tapsOnTemplate t k x y))"

text \<open>
  Modelled from the spec, step 4: "convolution of template variance plane with the squared
  kernel coefficients".
\<close>

definition convolveVariance :: "Template \<Rightarrow> Kernel \<Rightarrow> int \<Rightarrow> int \<Rightarrow> real" where
  "convolveVariance t k x y =
     sum_list (map (\<lambda>tap. case footprintPixel k x y tap of
                            (u, v) \<Rightarrow> (coefficients k x y (fst tap) (snd tap))\<^sup>2 * templateVarianceAt t u v)
                   (tapsOnTemplate t k x y))"

text \<open>
  Modelled from the spec, step 5: "bitwise-OR of all template mask pixels under the kernel
  footprint at that location".
\<close>

definition footprintMask :: "Template \<Rightarrow> Kernel \<Rightarrow> int \<Rightarrow> int \<Rightarrow> maskPixel" where
  "footprintMask t k x y =
     fold (\<lambda>tap m. case footprintPixel k x y tap of (u, v) \<Rightarrow> m OR templateMaskAt t u v)
          (tapsOnTemplate t k x y) 0"

text \<open>
  Modelled from the spec, step 2: "constant: same value everywhere; spatially varying:
  evaluate the 2D function at (x,y)".
\<close>

fun evalBackground :: "Background \<Rightarrow> int \<Rightarrow> int \<Rightarrow> real" where
  "evalBackground (Constant c) x y = c"
| "evalBackground (SpatialFunction f) x y = f (real_of_int x) (real_of_int y)"

text \<open>
  Modelled from the spec, step 6 and section 8: a pixel is near an edge when it lies
  "within floor(kernelHeight/2) rows or floor(kernelWidth/2) columns of any image edge".
\<close>

definition nearEdge :: "box \<Rightarrow> Kernel \<Rightarrow> int \<Rightarrow> int \<Rightarrow> bool" where
  "nearEdge b k x y \<longleftrightarrow>
     x - minX b < int (kernelWidth k div 2)
     \<or> minX b + int (boxWidth b) - 1 - x < int (kernelWidth k div 2)
     \<or> y - minY b < int (kernelHeight k div 2)
     \<or> minY b + int (boxHeight b) - 1 - y < int (kernelHeight k div 2)"

text \<open>
  Modelled from the spec, steps 1 to 6: the output covers the overlap of the operands.
  Image plane: "if true, output = science - (kernel * template) - background; if false,
  output = (kernel * template) + background - science". Variance plane: convolved template
  variance "plus science variance plane". Mask plane: the footprint's flags "OR'd with the
  corresponding science mask pixel", and pixels near an edge are marked "with an edge flag
  in the mask plane". Outside the output's box the planes hold 0.
\<close>

definition differenceImage ::
    "Template \<Rightarrow> MaskedImage \<Rightarrow> Kernel \<Rightarrow> Background \<Rightarrow> bool \<Rightarrow> MaskedImage" where
  "differenceImage t s k bg invert =
     (let out = overlap (templateBox t) (mbox s) in
      \<lparr>mbox = out,
       imagePlane = (\<lambda>x y.
         if inside out x y
         then (if invert
               then imagePlane s x y - convolveImage t k x y - evalBackground bg x y
               else convolveImage t k x y + evalBackground bg x y - imagePlane s x y)
         else 0),
       maskPlane = (\<lambda>x y.
         if inside out x y
         then footprintMask t k x y OR maskPlane s x y
              OR (if nearEdge out k x y then flagMask Edge else 0)
         else 0),
       variancePlane = (\<lambda>x y.
         if inside out x y
         then convolveVariance t k x y + variancePlane s x y
         else 0)\<rparr>)"

text \<open>
  Modelled from the spec: \<open>convolveAndSubtract(template, science, kernel, background,
  invert) -> MaskedImage\<close>; "any failure aborts the entire call with no output produced".
\<close>

definition convolveAndSubtract ::
    "Template \<Rightarrow> MaskedImage \<Rightarrow> Kernel \<Rightarrow> Background \<Rightarrow> bool \<Rightarrow> error + MaskedImage" where
  "convolveAndSubtract t s k bg invert =
     (case checkInputs t s k of
        Some e \<Rightarrow> Inl e
      | None \<Rightarrow> Inr (differenceImage t s k bg invert))"

text \<open>
  The claim on mask propagation, in the spec's words: the flags of the output pixel are
  those of "all template mask pixels lying under the kernel footprint centered at that
  pixel" together with those of "the co-located science mask pixel". The footprint centered
  on \<open>(x, y)\<close> reaches \<open>kernelWidth k div 2\<close> columns and \<open>kernelHeight k div 2\<close> rows to
  each side.
\<close>

definition underFootprint :: "Kernel \<Rightarrow> int \<Rightarrow> int \<Rightarrow> int \<Rightarrow> int \<Rightarrow> bool" where
  "underFootprint k x y u v \<longleftrightarrow>
     \<bar>u - x\<bar> \<le> int (kernelWidth k div 2) \<and> \<bar>v - y\<bar> \<le> int (kernelHeight k div 2)"

subsection \<open>The scenario of section 8\<close>

text \<open>
  "5x5 template of all 10.0, 5x5 science of all 12.0, 3x3 kernel with center coefficient 1
  and all others 0". The spec's scenario says nothing of masks and variances; here the
  template pixel \<open>(1, 1)\<close> is flagged saturated, every other mask pixel is clear, and the
  variances are 1.
\<close>

definition box5 :: box where
  "box5 = \<lparr>minX = 0, minY = 0, boxWidth = 5, boxHeight = 5\<rparr>"

definition template5 :: MaskedImage where
  "template5 =
     \<lparr>mbox = box5,
      imagePlane = (\<lambda>x y. 10),
      maskPlane = (\<lambda>x y. if x = 1 \<and> y = 1 then flagMask Saturated else 0),
      variancePlane = (\<lambda>x y. 1)\<rparr>"

definition science5 :: MaskedImage where
  "science5 =
     \<lparr>mbox = box5,
      imagePlane = (\<lambda>x y. 12),
      maskPlane = (\<lambda>x y. 0),
      variancePlane = (\<lambda>x y. 1)\<rparr>"

definition centerKernel3 :: Kernel where
  "centerKernel3 =
     \<lparr>kernelWidth = 3, kernelHeight = 3,
      coefficients = (\<lambda>x y i j. if i = 1 \<and> j = 1 then 1 else 0)\<rparr>"

text \<open>What the call of the scenario returns, with constant background 0 and \<open>invert\<close> true.\<close>

definition scenarioOutput :: MaskedImage where
  "scenarioOutput = differenceImage (WithPlanes template5) science5 centerKernel3 (Constant 0) True"

section \<open>What the binding exposes\<close>

lemma declareConvolveAndSubtract_module:
  "pyModule (declareConvolveAndSubtract PixelT BackgroundT wrappers) =
     pyModule wrappers @
     [\<lparr>pyName = ''convolveAndSubtract'',
       returnType = MaskedImageT PixelT,
       paramTypes = [(MaskedImageT PixelT, ByConstRef), (MaskedImageT PixelT, ByConstRef),
                     (KernelT, ByConstRef), BackgroundT, (BoolT, ByValue)],
       pyArgs = [arg ''templateImage'', arg ''scienceMaskedImage'',
                 arg ''convolutionKernel'', arg ''background'',
                 argWithDefault ''invert'' True]\<rparr>,
      \<lparr>pyName = ''convolveAndSubtract'',
       returnType = MaskedImageT PixelT,
       paramTypes = [(ImageT PixelT, ByConstRef), (MaskedImageT PixelT, ByConstRef),
                     (KernelT, ByConstRef), BackgroundT, (BoolT, ByValue)],
       pyArgs = [arg ''templateImage'', arg ''scienceMaskedImage'',
                 arg ''convolutionKernel'', arg ''background'',
                 argWithDefault ''invert'' True]\<rparr>]"
  by (simp add: declareConvolveAndSubtract_def def_def Let_def)

lemma length_exposed: "length exposed = 4"
  by (simp add: exposed_def wrapImageSubtract_def Let_def declareConvolveAndSubtract_module)

lemma background_of_exposed:
  "map (\<lambda>ov. paramNamed ov ''background'') exposed =
     [Some (ScalarT CDouble, ByValue), Some (ScalarT CDouble, ByValue),
      Some (Function2T CDouble, ByConstRef), Some (Function2T CDouble, ByConstRef)]"
  by (simp add: exposed_def wrapImageSubtract_def Let_def declareConvolveAndSubtract_module
      paramNamed_def arg_def argWithDefault_def)

lemma template_of_exposed:
  "map (\<lambda>ov. paramNamed ov ''templateImage'') exposed =
     [Some (MaskedImageT CFloat, ByConstRef), Some (ImageT CFloat, ByConstRef),
      Some (MaskedImageT CFloat, ByConstRef), Some (ImageT CFloat, ByConstRef)]"
  by (simp add: exposed_def wrapImageSubtract_def Let_def declareConvolveAndSubtract_module
      paramNamed_def arg_def argWithDefault_def)

lemma pixelTypes_of_exposed:
  "map pixelTypes exposed = replicate 4 [Some CFloat, Some CFloat, Some CFloat]"
  by (simp add: exposed_def wrapImageSubtract_def Let_def declareConvolveAndSubtract_module
      pixelTypes_def paramNamed_def arg_def argWithDefault_def numeral_eq_Suc)

lemma invert_default_of_exposed:
  "map (\<lambda>ov. defaultOf ov ''invert'') exposed = replicate 4 (Some (Some True))"
  by (simp add: exposed_def wrapImageSubtract_def Let_def declareConvolveAndSubtract_module
      defaultOf_def arg_def argWithDefault_def numeral_eq_Suc)

lemma pyName_of_exposed:
  "map pyName exposed = replicate 4 ''convolveAndSubtract''"
  by (simp add: exposed_def wrapImageSubtract_def Let_def declareConvolveAndSubtract_module
      numeral_eq_Suc)

lemma backgroundPrecision_of_exposed:
  "map backgroundPrecision exposed = replicate 4 (Some CDouble)"
  by (simp add: exposed_def wrapImageSubtract_def Let_def declareConvolveAndSubtract_module
      backgroundPrecision_def paramNamed_def arg_def argWithDefault_def numeral_eq_Suc)

lemma background_of_declared:
  "map (\<lambda>ov. paramNamed ov ''background'')
       (pyModule (declareConvolveAndSubtract PixelT BackgroundT \<lparr>pyModule = []\<rparr>)) =
     [Some BackgroundT, Some BackgroundT]"
  by (simp add: declareConvolveAndSubtract_module paramNamed_def arg_def argWithDefault_def)

text \<open>
  C1. The module exposes \<open>convolveAndSubtract\<close> in exactly two overload families, one
  whose background is a scalar \<open>double\<close> and one whose background is a
  \<open>Function2<double>\<close>; each family has an overload taking a \<open>MaskedImage\<close> template
  and one taking a plain \<open>Image\<close> template; the only pixel type instantiated is
  \<open>float\<close>; and in every exposed overload \<open>invert\<close> defaults to \<open>true\<close>.

  The four overloads are listed in registration order by their background and template
  parameter types; the set of background types has exactly the two members; every pixel
  type that occurs is \<open>float\<close>; every \<open>invert\<close> keyword has the default \<open>True\<close>.
\<close>

theorem C1_two_background_families_float_invert_true:
  "map pyName exposed = replicate 4 ''convolveAndSubtract''
   \<and> set (map (\<lambda>ov. paramNamed ov ''background'') exposed) =
       {Some (ScalarT CDouble, ByValue), Some (Function2T CDouble, ByConstRef)}
   \<and> map (\<lambda>ov. (paramNamed ov ''background'', paramNamed ov ''templateImage'')) exposed =
       [(Some (ScalarT CDouble, ByValue), Some (MaskedImageT CFloat, ByConstRef)),
        (Some (ScalarT CDouble, ByValue), Some (ImageT CFloat, ByConstRef)),
        (Some (Function2T CDouble, ByConstRef), Some (MaskedImageT CFloat, ByConstRef)),
        (Some (Function2T CDouble, ByConstRef), Some (ImageT CFloat, ByConstRef))]
   \<and> set (concat (map pixelTypes exposed)) = {Some CFloat}
   \<and> map (\<lambda>ov. defaultOf ov ''invert'') exposed = replicate 4 (Some (Some True))"
proof -
  have names: "map pyName exposed = replicate 4 ''convolveAndSubtract''"
    by (rule pyName_of_exposed)
  have families: "set (map (\<lambda>ov. paramNamed ov ''background'') exposed) =
      {Some (ScalarT CDouble, ByValue), Some (Function2T CDouble, ByConstRef)}"
    unfolding background_of_exposed by simp
  have grid: "map (\<lambda>ov. (paramNamed ov ''background'', paramNamed ov ''templateImage'')) exposed =
       [(Some (ScalarT CDouble, ByValue), Some (MaskedImageT CFloat, ByConstRef)),
        (Some (ScalarT CDouble, ByValue), Some (ImageT CFloat, ByConstRef)),
        (Some (Function2T CDouble, ByConstRef), Some (MaskedImageT CFloat, ByConstRef)),
        (Some (Function2T CDouble, ByConstRef), Some (ImageT CFloat, ByConstRef))]"
    by (simp add: exposed_def wrapImageSubtract_def Let_def declareConvolveAndSubtract_module
        paramNamed_def arg_def argWithDefault_def)
  have pixels: "set (concat (map pixelTypes exposed)) = {Some CFloat}"
    unfolding pixelTypes_of_exposed by (simp add: numeral_eq_Suc)
  have inverts: "map (\<lambda>ov. defaultOf ov ''invert'') exposed = replicate 4 (Some (Some True))"
    by (rule invert_default_of_exposed)
  from names families grid pixels inverts show ?thesis by blast
qed

text \<open>
  C10. In every exposed overload the background argument has element type \<open>double\<close>
  (it is a \<open>double\<close> passed by value or a \<open>Function2<double>\<close> passed by reference to
  const) although every pixel type is \<open>float\<close>. The background type is not derived from
  the pixel type: \<open>declareConvolveAndSubtract\<close> registers, for any \<open>PixelT\<close>, exactly the
  \<open>BackgroundT\<close> it was instantiated with.
\<close>

theorem C10_background_is_double_for_float_pixels:
  "map backgroundPrecision exposed = replicate 4 (Some CDouble)
   \<and> map (\<lambda>ov. paramNamed ov ''background'') exposed =
       [Some (ScalarT CDouble, ByValue), Some (ScalarT CDouble, ByValue),
        Some (Function2T CDouble, ByConstRef), Some (Function2T CDouble, ByConstRef)]
   \<and> map pixelTypes exposed = replicate 4 [Some CFloat, Some CFloat, Some CFloat]
   \<and> map (\<lambda>ov. paramNamed ov ''background'')
         (pyModule (declareConvolveAndSubtract PixelT BackgroundT \<lparr>pyModule = []\<rparr>)) =
       [Some BackgroundT, Some BackgroundT]"
  using backgroundPrecision_of_exposed background_of_exposed pixelTypes_of_exposed
    background_of_declared [of PixelT BackgroundT]
  by blast

section \<open>Mask propagation in the modelled operation\<close>

subsection \<open>The kernel footprint\<close>

text \<open>A fold of bitwise ORs sets exactly the bits set in the start value or in an element.\<close>

lemma bit_fold_or:
  "bit (fold (\<lambda>a m. m OR f a) xs (m0::nat)) n \<longleftrightarrow> bit m0 n \<or> (\<exists>a. a \<in> set xs \<and> bit (f a) n)"
proof (induction xs arbitrary: m0)
  case Nil
  then show ?case by simp
next
  case (Cons a xs)
  show ?case by (simp add: Cons.IH bit_or_iff) blast
qed

lemma set_taps: "set (taps k) = {(i, j). i < kernelWidth k \<and> j < kernelHeight k}"
  by (auto simp: taps_def)

text \<open>
  For an odd width the stencil columns, counted from the kernel's center, are the columns
  at distance at most \<open>w div 2\<close> from the output pixel.
\<close>

lemma tap_column:
  assumes "odd w"
  shows "(\<exists>i<w. x + int (w div 2) - int i = u) \<longleftrightarrow> \<bar>u - x\<bar> \<le> int (w div 2)"
proof
  assume "\<exists>i<w. x + int (w div 2) - int i = u"
  then obtain i where "i < w" "x + int (w div 2) - int i = u" by blast
  with assms show "\<bar>u - x\<bar> \<le> int (w div 2)" by (elim oddE) auto
next
  assume a: "\<bar>u - x\<bar> \<le> int (w div 2)"
  let ?i = "nat (x + int (w div 2) - u)"
  from a assms have "?i < w" by (elim oddE) auto
  moreover from a have "x + int (w div 2) - int ?i = u" by auto
  ultimately show "\<exists>i<w. x + int (w div 2) - int i = u" by blast
qed

lemma footprint_taps:
  assumes "odd (kernelWidth k)" "odd (kernelHeight k)"
  shows "(\<exists>tap. tap \<in> set (taps k) \<and> footprintPixel k x y tap = (u, v)) \<longleftrightarrow> underFootprint k x y u v"
proof -
  have "(\<exists>tap. tap \<in> set (taps k) \<and> footprintPixel k x y tap = (u, v)) \<longleftrightarrow>
        (\<exists>i<kernelWidth k. x + int (kernelWidth k div 2) - int i = u) \<and>
        (\<exists>j<kernelHeight k. y + int (kernelHeight k div 2) - int j = v)"
    by (auto simp: set_taps footprintPixel_def)
  then show ?thesis
    by (simp add: tap_column [OF assms(1)] tap_column [OF assms(2)] underFootprint_def)
qed

lemma bit_flagMask: "bit (flagMask f) n \<longleftrightarrow> n = flagBit f"
  by (auto simp: flagMask_def bit_exp_iff)

lemma footprintMask_bit:
  assumes "odd (kernelWidth k)" "odd (kernelHeight k)"
  shows "bit (footprintMask t k x y) n \<longleftrightarrow>
         (\<exists>u v. underFootprint k x y u v \<and> inside (templateBox t) u v \<and> bit (templateMaskAt t u v) n)"
proof -
  have "bit (footprintMask t k x y) n \<longleftrightarrow>
        (\<exists>tap. tap \<in> set (tapsOnTemplate t k x y) \<and>
           bit (case footprintPixel k x y tap of (u, v) \<Rightarrow> templateMaskAt t u v) n)"
    unfolding footprintMask_def
    using bit_fold_or [of "\<lambda>tap. case footprintPixel k x y tap of (u, v) \<Rightarrow> templateMaskAt t u v"
        "tapsOnTemplate t k x y" 0 n]
    by (simp add: case_prod_beta)
  also have "\<dots> \<longleftrightarrow> (\<exists>u v. (\<exists>tap. tap \<in> set (taps k) \<and> footprintPixel k x y tap = (u, v)) \<and>
        inside (templateBox t) u v \<and> bit (templateMaskAt t u v) n)" (is "?L \<longleftrightarrow> ?R")
  proof
    assume ?L
    then obtain tap u v where "tap \<in> set (taps k)" "footprintPixel k x y tap = (u, v)"
      "inside (templateBox t) u v" "bit (templateMaskAt t u v) n"
      by (auto simp: tapsOnTemplate_def)
    then show ?R by blast
  next
    assume ?R
    then obtain tap u v where "tap \<in> set (taps k)" "footprintPixel k x y tap = (u, v)"
      "inside (templateBox t) u v" "bit (templateMaskAt t u v) n"
      by blast
    then have "tap \<in> set (tapsOnTemplate t k x y) \<and>
           bit (case footprintPixel k x y tap of (u, v) \<Rightarrow> templateMaskAt t u v) n"
      by (simp add: tapsOnTemplate_def)
    then show ?L by blast
  qed
  also have "\<dots> \<longleftrightarrow> (\<exists>u v. underFootprint k x y u v \<and> inside (templateBox t) u v \<and> bit (templateMaskAt t u v) n)"
    by (simp only: footprint_taps [OF assms])
  finally show ?thesis .
qed

subsection \<open>Boxes and edges\<close>

lemma overlap_inside: "inside (overlap a b) x y \<longleftrightarrow> inside a x y \<and> inside b x y"
  by (auto simp: inside_def overlap_def Let_def)

lemma overlap_extent:
  assumes "inside (overlap a b) x y"
  shows "int (boxWidth (overlap a b)) =
           min (minX a + int (boxWidth a)) (minX b + int (boxWidth b)) - max (minX a) (minX b)"
    and "int (boxHeight (overlap a b)) =
           min (minY a + int (boxHeight a)) (minY b + int (boxHeight b)) - max (minY a) (minY b)"
proof -
  from assms have ab: "inside a x y" "inside b x y"
    by (simp_all add: overlap_inside)
  then have "max (minX a) (minX b) \<le> x" "x < min (minX a + int (boxWidth a)) (minX b + int (boxWidth b))"
    and "max (minY a) (minY b) \<le> y" "y < min (minY a + int (boxHeight a)) (minY b + int (boxHeight b))"
    by (simp_all add: inside_def)
  then show "int (boxWidth (overlap a b)) =
           min (minX a + int (boxWidth a)) (minX b + int (boxWidth b)) - max (minX a) (minX b)"
    and "int (boxHeight (overlap a b)) =
           min (minY a + int (boxHeight a)) (minY b + int (boxHeight b)) - max (minY a) (minY b)"
    by (simp_all add: overlap_def Let_def)
qed

lemma near_low: "(x - max l1 l2 < h) \<longleftrightarrow> (x - l1 < h \<or> x - l2 < (h::int))"
  by (cases "l1 \<le> l2") (simp_all add: max_def, linarith+)

lemma near_high: "(min h1 h2 - 1 - x < h) \<longleftrightarrow> (h1 - 1 - x < h \<or> h2 - 1 - x < (h::int))"
  by (cases "h1 \<le> h2") (simp_all add: min_def, linarith+)

text \<open>
  The output covers the overlap of the operands, and a pixel of it is near an edge of the
  output exactly when it is near an edge of the template or of the science image: "any
  image edge".
\<close>

lemma nearEdge_overlap:
  assumes "inside (overlap a b) x y"
  shows "nearEdge (overlap a b) k x y \<longleftrightarrow> nearEdge a k x y \<or> nearEdge b k x y"
proof -
  have x0: "minX (overlap a b) = max (minX a) (minX b)"
    and y0: "minY (overlap a b) = max (minY a) (minY b)"
    by (simp_all add: overlap_def Let_def)
  have x1: "minX (overlap a b) + int (boxWidth (overlap a b)) - 1 - x =
        min (minX a + int (boxWidth a)) (minX b + int (boxWidth b)) - 1 - x"
    and y1: "minY (overlap a b) + int (boxHeight (overlap a b)) - 1 - y =
        min (minY a + int (boxHeight a)) (minY b + int (boxHeight b)) - 1 - y"
    unfolding overlap_extent [OF assms] x0 y0 by simp_all
  show ?thesis
    unfolding nearEdge_def x1 y1 unfolding x0 y0 near_low near_high by blast
qed

subsection \<open>The result of a call\<close>

lemma checkInputs_odd:
  "checkInputs t s k = None \<Longrightarrow> odd (kernelWidth k) \<and> odd (kernelHeight k)"
  by (auto simp: checkInputs_def split: if_splits)

lemma maskPlane_differenceImage:
  assumes "inside (overlap (templateBox t) (mbox s)) x y"
  shows "maskPlane (differenceImage t s k bg invert) x y =
         footprintMask t k x y OR maskPlane s x y
         OR (if nearEdge (overlap (templateBox t) (mbox s)) k x y then flagMask Edge else 0)"
  using assms by (simp add: differenceImage_def Let_def)

lemma mbox_differenceImage:
  "mbox (differenceImage t s k bg invert) = overlap (templateBox t) (mbox s)"
  by (simp add: differenceImage_def Let_def)

lemma convolveAndSubtract_Inr:
  "convolveAndSubtract t s k bg invert = Inr out \<longleftrightarrow>
     checkInputs t s k = None \<and> out = differenceImage t s k bg invert"
  by (auto simp: convolveAndSubtract_def split: option.splits)

lemma scenario_returns:
  "convolveAndSubtract (WithPlanes template5) science5 centerKernel3 (Constant 0) True
     = Inr scenarioOutput"
  by (simp add: convolveAndSubtract_Inr scenarioOutput_def checkInputs_def overlap_def
      template5_def science5_def centerKernel3_def box5_def Let_def)

lemma scenario_box: "mbox scenarioOutput = box5"
  by (simp add: scenarioOutput_def mbox_differenceImage overlap_def template5_def science5_def
      box5_def Let_def)

subsection \<open>The output mask\<close>

text \<open>
  C6 (as amended). For every valid invocation with a MaskedImage template, a flag is set in
  the output mask at a pixel of the output exactly when it is set in some template mask
  pixel lying under the kernel footprint centered at that pixel, or in the co-located
  science mask pixel, or it is the edge flag and the pixel lies within
  \<open>kernelHeight div 2\<close> rows or \<open>kernelWidth div 2\<close> columns of an image edge. The
  output mask is therefore the bitwise OR of the template mask pixels under the footprint
  and the science mask pixel, with the edge flag added near the edges.
\<close>

theorem C6_output_mask_is_footprint_union_with_edge_flag:
  assumes "convolveAndSubtract (WithPlanes t) s k bg invert = Inr out"
    and "inside (mbox out) x y"
  shows "bit (maskPlane out x y) n \<longleftrightarrow>
           (\<exists>u v. underFootprint k x y u v \<and> inside (mbox t) u v \<and> bit (maskPlane t u v) n)
           \<or> bit (maskPlane s x y) n
           \<or> (nearEdge (mbox out) k x y \<and> n = flagBit Edge)"
proof -
  from assms(1) have ok: "checkInputs (WithPlanes t) s k = None"
    and out: "out = differenceImage (WithPlanes t) s k bg invert"
    by (simp_all add: convolveAndSubtract_Inr)
  from ok have odd: "odd (kernelWidth k)" "odd (kernelHeight k)"
    using checkInputs_odd by blast+
  from assms(2) out have ins: "inside (overlap (templateBox (WithPlanes t)) (mbox s)) x y"
    by (simp add: mbox_differenceImage)
  have box: "mbox out = overlap (templateBox (WithPlanes t)) (mbox s)"
    by (simp add: out mbox_differenceImage)
  show ?thesis
    unfolding out maskPlane_differenceImage [OF ins] box [unfolded out]
    using footprintMask_bit [OF odd, of "WithPlanes t" x y n]
    by (simp add: bit_or_iff bit_flagMask)
qed

text \<open>
  C6 as stated, without the edge flag, fails in the scenario of section 8 at the corner
  pixel \<open>(0, 0)\<close>: the call succeeds, the output mask there carries the edge flag, and
  neither a template mask pixel under the footprint nor the science mask pixel carries it.
\<close>

theorem C6_edge_pixel_counterexample:
  "convolveAndSubtract (WithPlanes template5) science5 centerKernel3 (Constant 0) True
     = Inr scenarioOutput
   \<and> inside (mbox scenarioOutput) 0 0
   \<and> bit (maskPlane scenarioOutput 0 0) (flagBit Edge)
   \<and> \<not> ((\<exists>u v. underFootprint centerKernel3 0 0 u v \<and> inside (mbox template5) u v
                  \<and> bit (maskPlane template5 u v) (flagBit Edge))
          \<or> bit (maskPlane science5 0 0) (flagBit Edge))"
proof -
  have ins: "inside (mbox scenarioOutput) 0 0"
    by (simp add: scenario_box box5_def inside_def)
  have near: "nearEdge box5 centerKernel3 0 0"
    by (simp add: nearEdge_def box5_def centerKernel3_def)
  have ins': "inside (overlap (templateBox (WithPlanes template5)) (mbox science5)) 0 0"
    using ins by (simp only: scenarioOutput_def mbox_differenceImage)
  have near':
    "nearEdge (overlap (templateBox (WithPlanes template5)) (mbox science5)) centerKernel3 0 0"
    using near scenario_box by (simp only: scenarioOutput_def mbox_differenceImage)
  have flagged: "bit (maskPlane scenarioOutput 0 0) (flagBit Edge)"
    unfolding scenarioOutput_def maskPlane_differenceImage [OF ins']
    using near' by (simp add: bit_or_iff bit_flagMask)
  have template_clear: "\<not> bit (maskPlane template5 u v) (flagBit Edge)" for u v
    by (simp add: template5_def bit_flagMask)
  have science_clear: "\<not> bit (maskPlane science5 0 0) (flagBit Edge)"
    by (simp add: science5_def)
  from scenario_returns ins flagged template_clear science_clear show ?thesis by blast
qed

text \<open>
  The amended statement at the interior pixel \<open>(2, 2)\<close> of the same scenario: the
  saturated flag of template pixel \<open>(1, 1)\<close>, which lies under the footprint, reaches the
  output mask, and the edge flag does not.
\<close>

theorem C6_interior_pixel_witness:
  "convolveAndSubtract (WithPlanes template5) science5 centerKernel3 (Constant 0) True
     = Inr scenarioOutput
   \<and> inside (mbox scenarioOutput) 2 2
   \<and> bit (maskPlane scenarioOutput 2 2) (flagBit Saturated)
   \<and> \<not> bit (maskPlane scenarioOutput 2 2) (flagBit Edge)"
proof -
  have ins: "inside (mbox scenarioOutput) 2 2"
    by (simp add: scenario_box box5_def inside_def)
  have under: "underFootprint centerKernel3 2 2 1 1 \<and> inside (mbox template5) 1 1
      \<and> bit (maskPlane template5 1 1) (flagBit Saturated)"
    by (simp add: underFootprint_def centerKernel3_def template5_def box5_def inside_def
        bit_flagMask)
  have far: "\<not> nearEdge (mbox scenarioOutput) centerKernel3 2 2"
    by (simp add: scenario_box nearEdge_def box5_def centerKernel3_def)
  have template_clear: "\<not> bit (maskPlane template5 u v) (flagBit Edge)" for u v
    by (simp add: template5_def bit_flagMask)
  have science_clear: "\<not> bit (maskPlane science5 2 2) (flagBit Edge)"
    by (simp add: science5_def)
  have sat: "bit (maskPlane scenarioOutput 2 2) (flagBit Saturated)"
    using C6_output_mask_is_footprint_union_with_edge_flag
      [OF scenario_returns ins, of "flagBit Saturated"] under
    by blast
  have no_edge: "\<not> bit (maskPlane scenarioOutput 2 2) (flagBit Edge)"
    using C6_output_mask_is_footprint_union_with_edge_flag
      [OF scenario_returns ins, of "flagBit Edge"] far template_clear science_clear
    by blast
  from scenario_returns ins sat no_edge show ?thesis by blast
qed

end
